theory Spec2Isabelle
  imports Main "HOL-Library.AList"
begin

section \<open>Python values, exceptions and outcomes\<close>

text \<open>
  The pure-Python fallback of \<^verbatim>\<open>PAM.py\<close> handles arbitrary Python objects. The values
  that the code inspects are modelled by \<open>pyval\<close>: \<open>None\<close>, booleans, unbounded integers,
  strings, lists, tuples, and plain objects given by their class name and instance
  attributes (an object of this kind is neither callable, nor a sequence, nor a number).
  Floating-point numbers, subclasses of the built-in types and objects with overridden
  special methods are outside the model.
\<close>

datatype pyval =
    VNone
  | VBool bool
  | VInt int
  | VStr string
  | VList "pyval list"
  | VTuple "pyval list"
  | VObj string "(string \<times> pyval) list"

text \<open>
  Exceptions are given by their class and their \<open>args\<close>. \<open>PamException\<close> carries
  \<open>pam_result\<close> next to the remaining arguments (\<^verbatim>\<open>PamException(pam_result, *args)\<close>);
  \<open>PAM.error(msg, code)\<close> has \<open>args = (msg, code)\<close>. \<open>OtherException\<close> stands for any
  further class derived from \<open>Exception\<close>, \<open>BaseOnly\<close> for a class derived from
  \<open>BaseException\<close> but not from \<open>Exception\<close> (\<open>SystemExit\<close>, \<open>KeyboardInterrupt\<close>, ...).
\<close>

datatype exc_class =
    PamErrorC
  | RuntimeErrorC
  | TypeErrorC
  | ValueErrorC
  | AttributeErrorC
  | KeyErrorC
  | OtherException string
  | BaseOnly string

datatype exc =
    PamException pyval "pyval list"
  | Exc exc_class "pyval list"

datatype outcome = Returns pyval | Raises exc

text \<open>\<^verbatim>\<open>error(msg, code)\<close>, lines 76-78.\<close>

definition error :: "string \<Rightarrow> pyval \<Rightarrow> exc" where
  "error msg code = Exc PamErrorC [VStr msg, code]"

definition RuntimeError :: "string \<Rightarrow> exc" where
  "RuntimeError msg = Exc RuntimeErrorC [VStr msg]"

definition TypeError :: "string \<Rightarrow> exc" where
  "TypeError msg = Exc TypeErrorC [VStr msg]"

definition ValueError :: "string \<Rightarrow> exc" where
  "ValueError msg = Exc ValueErrorC [VStr msg]"

definition AttributeError :: "string \<Rightarrow> exc" where
  "AttributeError msg = Exc AttributeErrorC [VStr msg]"

definition KeyError :: "pyval \<Rightarrow> exc" where
  "KeyError key = Exc KeyErrorC [key]"

text \<open>The three \<^verbatim>\<open>except\<close> clauses of \<^verbatim>\<open>_call_handler\<close> test class membership.\<close>

fun is_PamException :: "exc \<Rightarrow> bool" where
  "is_PamException (PamException r args) = True"
| "is_PamException (Exc c args) = False"

fun is_error :: "exc \<Rightarrow> bool" where
  "is_error (Exc PamErrorC args) = True"
| "is_error e = False"

fun is_TypeError :: "exc \<Rightarrow> bool" where
  "is_TypeError (Exc TypeErrorC args) = True"
| "is_TypeError e = False"

fun is_Exception :: "exc \<Rightarrow> bool" where
  "is_Exception (Exc (BaseOnly c) args) = False"
| "is_Exception e = True"

text \<open>
  \<^verbatim>\<open>str()\<close> and \<^verbatim>\<open>repr()\<close> belong to the interpreter. \<open>str\<close> of a string is the
  string itself; for every other value the text is taken from the parameter \<open>I\<close>.
  \<open>str\<close> of an exception follows \<open>BaseException.__str__\<close>: empty for no argument, \<open>str\<close>
  of a single argument (\<open>repr\<close> for \<open>KeyError\<close>), otherwise the text of the argument
  tuple.
\<close>

record interp =
  str_of :: "pyval \<Rightarrow> string"
  repr_of :: "pyval \<Rightarrow> string"

definition py_str :: "interp \<Rightarrow> pyval \<Rightarrow> string" where
  "py_str I v = (case v of VStr s \<Rightarrow> s | _ \<Rightarrow> str_of I v)"

fun exc_args :: "exc \<Rightarrow> pyval list" where
  "exc_args (PamException r args) = args"
| "exc_args (Exc c args) = args"

definition exc_str :: "interp \<Rightarrow> exc \<Rightarrow> string" where
  "exc_str I e =
     (case exc_args e of
        [] \<Rightarrow> []
      | [a] \<Rightarrow> (case e of Exc KeyErrorC _ \<Rightarrow> repr_of I a | _ \<Rightarrow> py_str I a)
      | a # b # rest \<Rightarrow> str_of I (VTuple (a # b # rest)))"

text \<open>\<^verbatim>\<open>isinstance(v, int)\<close> holds for integers and booleans; \<open>int_of\<close> is their number.\<close>

fun int_of :: "pyval \<Rightarrow> int option" where
  "int_of (VInt i) = Some i"
| "int_of (VBool b) = Some (if b then 1 else 0)"
| "int_of v = None"

definition isinstance_int :: "pyval \<Rightarrow> bool" where
  "isinstance_int v = (int_of v \<noteq> None)"

fun isinstance_str :: "pyval \<Rightarrow> bool" where
  "isinstance_str (VStr s) = True"
| "isinstance_str v = False"

text \<open>\<^verbatim>\<open>isinstance(v, (list, tuple))\<close>.\<close>

fun isinstance_seq :: "pyval \<Rightarrow> bool" where
  "isinstance_seq (VList xs) = True"
| "isinstance_seq (VTuple xs) = True"
| "isinstance_seq v = False"

fun seq_items :: "pyval \<Rightarrow> pyval list" where
  "seq_items (VList xs) = xs"
| "seq_items (VTuple xs) = xs"
| "seq_items v = []"

text \<open>\<^verbatim>\<open>a == b\<close> where \<open>a\<close> is an integer: equal numbers, whatever \<open>b\<close> is otherwise.\<close>

definition int_eq :: "pyval \<Rightarrow> pyval \<Rightarrow> bool" where
  "int_eq a b = (int_of a \<noteq> None \<and> int_of a = int_of b)"

fun py_truthy :: "pyval \<Rightarrow> bool" where
  "py_truthy VNone = False"
| "py_truthy (VBool b) = b"
| "py_truthy (VInt i) = (i \<noteq> 0)"
| "py_truthy (VStr s) = (s \<noteq> [])"
| "py_truthy (VList xs) = (xs \<noteq> [])"
| "py_truthy (VTuple xs) = (xs \<noteq> [])"
| "py_truthy (VObj c attrs) = True"

text \<open>\<^verbatim>\<open>type(v).__name__\<close>.\<close>

fun type_name :: "pyval \<Rightarrow> string" where
  "type_name VNone = ''NoneType''"
| "type_name (VBool b) = ''bool''"
| "type_name (VInt i) = ''int''"
| "type_name (VStr s) = ''str''"
| "type_name (VList xs) = ''list''"
| "type_name (VTuple xs) = ''tuple''"
| "type_name (VObj c attrs) = c"

text \<open>\<^verbatim>\<open>s.startswith(p)\<close> and \<^verbatim>\<open>s.endswith(p)\<close>.\<close>

definition startswith :: "string \<Rightarrow> string \<Rightarrow> bool" where
  "startswith s p = (take (length p) s = p)"

definition endswith :: "string \<Rightarrow> string \<Rightarrow> bool" where
  "endswith s p = (length p \<le> length s \<and> drop (length s - length p) s = p)"

section \<open>The environment mapping\<close>

text \<open>
  \<^verbatim>\<open>PamEnvMapping\<close>, lines 285-324. The dictionary \<open>_d\<close> only ever receives string
  keys and string values (\<open>__setitem__\<close> is its only writer), so it is an association
  list of strings in insertion order.
\<close>

type_synonym env_mapping = "(string \<times> string) list"

text \<open>The apostrophe of the messages.\<close>

definition apos :: string where
  "apos = [CHR 0x27]"

fun hashable :: "pyval \<Rightarrow> bool" where
  "hashable (VList xs) = False"
| "hashable (VTuple xs) = list_all hashable xs"
| "hashable v = True"

definition env_len :: "env_mapping \<Rightarrow> nat" where
  "env_len d = length d"

definition env_getitem :: "env_mapping \<Rightarrow> pyval \<Rightarrow> exc + pyval" where
  "env_getitem d key =
     (case key of
        VStr k \<Rightarrow>
          if k = [] then Inl (ValueError (''PAM environment key mustn'' @ apos @ ''t be 0 length''))
          else if CHR ''='' \<in> set k
          then Inl (ValueError (''PAM environment key can'' @ apos @ ''t contain '' @ apos @ ''='' @ apos))
          else (case map_of d k of Some v \<Rightarrow> Inr (VStr v) | None \<Rightarrow> Inl (KeyError key))
      | _ \<Rightarrow> Inl (TypeError ''PAM environment key must be a string''))"

definition env_setitem :: "env_mapping \<Rightarrow> pyval \<Rightarrow> pyval \<Rightarrow> exc + env_mapping" where
  "env_setitem d key val =
     (case key of
        VStr k \<Rightarrow>
          if k = [] then Inl (ValueError (''PAM environment key mustn'' @ apos @ ''t be 0 length''))
          else if CHR ''='' \<in> set k
          then Inl (ValueError (''PAM environment key can'' @ apos @ ''t contain '' @ apos @ ''='' @ apos))
          else (case val of
                  VStr v \<Rightarrow> Inr (AList.update k v d)
                | _ \<Rightarrow> Inl (TypeError ''PAM environment value must be a string''))
      | _ \<Rightarrow> Inl (TypeError ''PAM environment key must be a string''))"

text \<open>\<^verbatim>\<open>key in self._d\<close> raises for an unhashable key and is false for a non-string.\<close>

definition env_delitem :: "env_mapping \<Rightarrow> pyval \<Rightarrow> exc + env_mapping" where
  "env_delitem d key =
     (if \<not> hashable key then Inl (TypeError (''unhashable type: '' @ apos @ type_name key @ apos))
      else case key of
        VStr k \<Rightarrow>
          (case map_of d k of
             Some v \<Rightarrow> Inr (AList.delete k d)
           | None \<Rightarrow> Inl (KeyError key))
      | _ \<Rightarrow> Inl (KeyError key))"

section \<open>The transaction handle\<close>

text \<open>
  The conversation delegate is called in one of three shapes (lines 205, 208, 210):
  \<^verbatim>\<open>conv(self, convs)\<close>, \<^verbatim>\<open>conv(convs)\<close>, \<^verbatim>\<open>conv(self, convs, None)\<close>. A delegate
  is given by what it does for each shape and payload; a call that does not fit its
  signature raises \<open>TypeError\<close>. A delegate does not change the handle.
\<close>

datatype conv_shape = HandlePayload | PayloadOnly | HandlePayloadNone

type_synonym delegate = "conv_shape \<Rightarrow> pyval \<Rightarrow> outcome"

text \<open>
  What an attribute of the handle can hold: a plain value, a callable (the conversation
  delegate), the environment mapping, or one of the classes \<open>PamException\<close>,
  \<open>XAuthData\<close>, \<open>Message\<close>, \<open>Response\<close>. The handle is its instance dictionary. The
  methods of the class are not entries of this dictionary; none of the names looked
  up below is the name of a method.
\<close>

datatype hval =
    Val pyval
  | Callable delegate
  | Env env_mapping
  | Class string

type_synonym handle = "string \<Rightarrow> hval option"

text \<open>\<^verbatim>\<open>XAuthData\<close>, \<^verbatim>\<open>Message\<close>, \<^verbatim>\<open>Response\<close>: the constructors of lines 170-196.\<close>

definition none_or_type_name :: "pyval \<Rightarrow> string" where
  "none_or_type_name v = (if v = VNone then ''None'' else type_name v)"

definition XAuthData_init :: "pyval \<Rightarrow> pyval \<Rightarrow> exc + pyval" where
  "XAuthData_init name data =
     (if \<not> isinstance_str name
      then Inl (TypeError (''XAuthData() argument 1 must be string, not '' @ none_or_type_name name))
      else if \<not> isinstance_str data
      then Inl (TypeError (''XAuthData() argument 2 must be string, not '' @ none_or_type_name data))
      else Inr (VObj ''XAuthData'' [(''name'', name), (''data'', data)]))"

definition Message_init :: "pyval \<Rightarrow> pyval \<Rightarrow> exc + pyval" where
  "Message_init msg_style msg =
     (if \<not> isinstance_int msg_style
      then Inl (TypeError (''Message() argument 1 must be int, not '' @ type_name msg_style))
      else if \<not> isinstance_str msg
      then Inl (TypeError (''Message() argument 2 must be string, not '' @ none_or_type_name msg))
      else Inr (VObj ''Message'' [(''msg'', msg), (''msg_style'', msg_style)]))"

definition Response_init :: "pyval \<Rightarrow> pyval \<Rightarrow> exc + pyval" where
  "Response_init resp resp_retcode =
     Inr (VObj ''Response'' [(''resp'', resp), (''resp_retcode'', resp_retcode)])"

text \<open>\<^verbatim>\<open>PamException(pam_result, *args)\<close>, lines 68-71, as a value.\<close>

definition PamException_init :: "pyval list \<Rightarrow> exc + pyval" where
  "PamException_init xs =
     (case xs of
        [] \<Rightarrow> Inl (TypeError ''__init__() missing 1 required positional argument'')
      | r # args \<Rightarrow> Inr (VObj ''PamException'' [(''args'', VTuple args), (''pam_result'', r)]))"

text \<open>Calling a class with positional arguments; a wrong number of them is a \<open>TypeError\<close>.\<close>

definition class_call :: "string \<Rightarrow> pyval list \<Rightarrow> exc + pyval" where
  "class_call c xs =
     (if c = ''PamException'' then PamException_init xs
      else case xs of
        [a, b] \<Rightarrow>
          (if c = ''XAuthData'' then XAuthData_init a b
           else if c = ''Message'' then Message_init a b
           else if c = ''Response'' then Response_init a b
           else Inl (TypeError (c @ ''() takes no arguments'')))
      | _ \<Rightarrow> Inl (TypeError (c @ ''() takes 2 positional arguments'')))"

text \<open>\<^verbatim>\<open>__getattr__\<close>, lines 158-197: the fallback when the instance has no such attribute.\<close>

definition item_names :: "string list" where
  "item_names = [''authtok'', ''authtok_type'', ''oldauthtok'', ''rhost'', ''ruser'', ''service'',
                 ''tty'', ''user'', ''user_prompt'', ''xdisplay'', ''xauthdata'']"

definition handle_getattr_fallback :: "string \<Rightarrow> exc + hval" where
  "handle_getattr_fallback name =
     (if name \<in> set item_names then Inr (Val VNone)
      else if name = ''XAuthData'' then Inr (Class ''XAuthData'')
      else if name = ''Message'' then Inr (Class ''Message'')
      else if name = ''Response'' then Inr (Class ''Response'')
      else Inl (AttributeError name))"

text \<open>\<^verbatim>\<open>self.name\<close> and \<^verbatim>\<open>getattr(self, name, default)\<close> on a handle.\<close>

definition handle_getattr :: "handle \<Rightarrow> string \<Rightarrow> exc + hval" where
  "handle_getattr h name =
     (case h name of Some v \<Rightarrow> Inr v | None \<Rightarrow> handle_getattr_fallback name)"

definition handle_getattr_default :: "handle \<Rightarrow> string \<Rightarrow> hval \<Rightarrow> hval" where
  "handle_getattr_default h name d =
     (case handle_getattr h name of Inr v \<Rightarrow> v | Inl e \<Rightarrow> d)"

text \<open>Truth value of an attribute: the environment mapping has \<open>__len__\<close>.\<close>

fun hval_truthy :: "hval \<Rightarrow> bool" where
  "hval_truthy (Val v) = py_truthy v"
| "hval_truthy (Env d) = (d \<noteq> [])"
| "hval_truthy v = True"

text \<open>\<^verbatim>\<open>__setattr__\<close>, lines 91-112. \<^verbatim>\<open>object.__setattr__\<close> writes the instance dictionary.\<close>

definition object_setattr :: "handle \<Rightarrow> string \<Rightarrow> hval \<Rightarrow> handle" where
  "object_setattr h name v = h(name \<mapsto> v)"

definition item_const :: "(string \<times> string) list" where
  "item_const = [(''tty'', ''PAM_TTY''), (''user'', ''PAM_USER''), (''rhost'', ''PAM_RHOST''),
                 (''ruser'', ''PAM_RUSER''), (''user_prompt'', ''PAM_USER_PROMPT''),
                 (''xdisplay'', ''PAM_XDISPLAY''), (''authtok_type'', ''PAM_AUTHTOK_TYPE'')]"

fun hval_is_str :: "hval \<Rightarrow> bool" where
  "hval_is_str (Val v) = isinstance_str v"
| "hval_is_str v = False"

text \<open>\<^verbatim>\<open>getattr(self, '_constants_locked', False)\<close> as a condition, line 97.\<close>

definition constants_locked :: "handle \<Rightarrow> bool" where
  "constants_locked h =
     hval_truthy (handle_getattr_default h ''_constants_locked'' (Val (VBool False)))"

definition handle_setattr :: "handle \<Rightarrow> string \<Rightarrow> hval \<Rightarrow> exc + handle" where
  "handle_setattr h name v =
     (if startswith name ''_'' then Inr (object_setattr h name v)
      else if constants_locked h
              \<and> (startswith name ''PAM_'' \<or> startswith name ''_PAM_'')
      then Inl (AttributeError (''attribute '' @ apos @ name @ apos @ '' of '' @ apos
                  @ ''PamHandle_type'' @ apos @ '' objects is not writable''))
      else case map_of item_const name of
        Some c \<Rightarrow>
          if \<not> hval_is_str v then Inl (TypeError (''PAM item '' @ c @ '' must be set to a string''))
          else Inr (object_setattr h name v)
      | None \<Rightarrow> Inr (object_setattr h name v))"

text \<open>\<^verbatim>\<open>__init__\<close>, lines 81-88: six assignments through \<^verbatim>\<open>__setattr__\<close>, in order.\<close>

fun setattrs :: "handle \<Rightarrow> (string \<times> hval) list \<Rightarrow> exc + handle" where
  "setattrs h [] = Inr h"
| "setattrs h ((name, v) # rest) =
     (case handle_setattr h name v of Inl e \<Rightarrow> Inl e | Inr h' \<Rightarrow> setattrs h' rest)"

definition PamHandle_type_init :: "hval \<Rightarrow> hval \<Rightarrow> hval \<Rightarrow> exc + handle" where
  "PamHandle_type_init module_path user conv =
     setattrs Map.empty
       [(''module'', Val VNone), (''module_path'', module_path), (''user'', user),
        (''conv'', conv), (''exception'', Class ''PamException''),
        (''_constants_locked'', Val (VBool False))]"

section \<open>The conversation\<close>

text \<open>
  \<^verbatim>\<open>conversation\<close>, lines 199-235. Calling what \<open>self.conv\<close> holds: the delegate
  itself, a class (its constructor, with the handle as an object of class
  \<open>PamHandle_type\<close>), or something that is not callable and raises \<open>TypeError\<close>.
\<close>

definition handle_ref :: pyval where
  "handle_ref = VObj ''PamHandle_type'' []"

fun shape_args :: "conv_shape \<Rightarrow> pyval \<Rightarrow> pyval list" where
  "shape_args HandlePayload convs = [handle_ref, convs]"
| "shape_args PayloadOnly convs = [convs]"
| "shape_args HandlePayloadNone convs = [handle_ref, convs, VNone]"

fun call_conv :: "hval \<Rightarrow> conv_shape \<Rightarrow> pyval \<Rightarrow> outcome" where
  "call_conv (Callable d) s convs = d s convs"
| "call_conv (Class c) s convs =
     (case class_call c (shape_args s convs) of Inl e \<Rightarrow> Raises e | Inr v \<Rightarrow> Returns v)"
| "call_conv (Val v) s convs = Raises (TypeError (apos @ type_name v @ apos @ '' object is not callable''))"
| "call_conv (Env d) s convs = Raises (TypeError (apos @ ''PamEnvMapping'' @ apos @ '' object is not callable''))"

fun raises_TypeError :: "outcome \<Rightarrow> bool" where
  "raises_TypeError (Raises e) = is_TypeError e"
| "raises_TypeError (Returns v) = False"

text \<open>The nested \<^verbatim>\<open>try\<close> of lines 204-210.\<close>

definition probe_conv :: "hval \<Rightarrow> pyval \<Rightarrow> outcome" where
  "probe_conv c convs =
     (let r1 = call_conv c HandlePayload convs in
      if raises_TypeError r1
      then (let r2 = call_conv c PayloadOnly convs in
            if raises_TypeError r2 then call_conv c HandlePayloadNone convs else r2)
      else r1)"

text \<open>The local class \<^verbatim>\<open>Resp\<close>, lines 212-215.\<close>

definition Resp :: "pyval \<Rightarrow> pyval \<Rightarrow> pyval" where
  "Resp resp resp_retcode = VObj ''Resp'' [(''resp'', resp), (''resp_retcode'', resp_retcode)]"

text \<open>The body of the loop, lines 223-228: one reply of the delegate becomes one \<open>Resp\<close>.\<close>

definition to_Resp :: "interp \<Rightarrow> pyval \<Rightarrow> pyval" where
  "to_Resp I m =
     (case (case m of VObj c attrs \<Rightarrow> map_of attrs ''msg'' | _ \<Rightarrow> None) of
        Some msg \<Rightarrow>
          Resp msg (case m of
                      VObj c attrs \<Rightarrow> (case map_of attrs ''msg_style'' of Some s \<Rightarrow> s | None \<Rightarrow> VInt 0)
                    | _ \<Rightarrow> VInt 0)
      | None \<Rightarrow>
          (case (if isinstance_seq m then seq_items m else []) of
             a # b # rest \<Rightarrow> Resp a b
           | _ \<Rightarrow> Resp (VStr (py_str I m)) (VInt 0)))"

text \<open>The loop of lines 222-228, appending to \<open>responses\<close>.\<close>

fun build_responses :: "interp \<Rightarrow> pyval list \<Rightarrow> pyval list \<Rightarrow> pyval list" where
  "build_responses I responses [] = responses"
| "build_responses I responses (m # ms) = build_responses I (responses @ [to_Resp I m]) ms"

definition conversation :: "interp \<Rightarrow> handle \<Rightarrow> pyval \<Rightarrow> exc + pyval" where
  "conversation I h convs =
     (case handle_getattr h ''conv'' of
        Inl e \<Rightarrow> Inl e
      | Inr c \<Rightarrow>
          (case probe_conv c convs of
             Raises e \<Rightarrow> Inl e
           | Returns res \<Rightarrow>
               (let iterable = (if isinstance_seq res then seq_items res else [res]);
                    responses = build_responses I [] iterable
                in if \<not> isinstance_seq convs
                   then (case responses of [] \<Rightarrow> Inr VNone | r # rs \<Rightarrow> Inr r)
                   else Inr (VTuple responses))))"

section \<open>The loaded module and the dispatcher state\<close>

text \<open>
  A module entry point is called as \<^verbatim>\<open>func(self._pamh, flags, argv)\<close>. It sees the
  handle (or \<open>None\<close> when no handle was built), may change it, and returns or raises.
\<close>

type_synonym entry_fn = "handle option \<Rightarrow> pyval \<Rightarrow> pyval \<Rightarrow> outcome \<times> handle option"

text \<open>A module-level name is bound to something callable or to a plain value.\<close>

datatype mod_attr = Function entry_fn | Data pyval

text \<open>
  The loaded module: its names, the value of \<open>__file__\<close> (\<open>VNone\<close> when unset) and
  \<open>PAM_CONSTANTS\<close> when that is a dictionary (keyed by attribute names).
\<close>

record user_module =
  mod_attrs :: "string \<Rightarrow> mod_attr option"
  mod_file :: pyval
  PAM_CONSTANTS :: "(string \<times> pyval) list option"

text \<open>
  The \<^verbatim>\<open>pam\<close> object. \<open>service_args\<close> is \<open>None\<close> until \<open>start\<close> creates
  \<open>_service_args\<close>. \<open>calls\<close> is a ghost field: the log of the calls made into the
  module, each with the name, the flags and the argv it was given.
\<close>

record pam =
  user_module :: "user_module option"
  pamh :: "handle option"
  service_args :: "(string \<times> string list) list option"
  calls :: "(string \<times> pyval \<times> pyval) list"

text \<open>\<^verbatim>\<open>pam.__init__\<close>, lines 238-240.\<close>

definition pam_init :: pam where
  "pam_init = \<lparr>user_module = None, pamh = None, service_args = None, calls = []\<rparr>"

text \<open>\<^verbatim>\<open>_populate_constants\<close>, lines 115-124.\<close>

fun set_constants :: "handle \<Rightarrow> (string \<times> pyval) list \<Rightarrow> handle" where
  "set_constants h [] = h"
| "set_constants h ((k, v) # rest) = set_constants (object_setattr h k (Val v)) rest"

definition populate_constants :: "handle \<Rightarrow> user_module \<Rightarrow> handle" where
  "populate_constants h user_mod =
     (let h1 = (case PAM_CONSTANTS user_mod of
                  Some consts \<Rightarrow> set_constants h consts
                | None \<Rightarrow> object_setattr h ''PAM_SUCCESS'' (Val (VInt 0)))
      in object_setattr h1 ''_constants_locked'' (Val (VBool True)))"

section \<open>Reading the configuration\<close>

text \<open>
  \<^verbatim>\<open>line.split()\<close>: the maximal runs of characters that are not white space. White
  space is what \<^verbatim>\<open>str.isspace\<close> accepts among the first 256 code points.
\<close>

definition is_space :: "char \<Rightarrow> bool" where
  "is_space c = (c \<in> set [CHR 0x09, CHR 0x0A, CHR 0x0B, CHR 0x0C, CHR 0x0D, CHR 0x1C, CHR 0x1D,
                           CHR 0x1E, CHR 0x1F, CHR 0x20, CHR 0x85, CHR 0xA0])"

fun split_from :: "string \<Rightarrow> string \<Rightarrow> string list" where
  "split_from w [] = (if w = [] then [] else [rev w])"
| "split_from w (c # cs) =
     (if is_space c then (if w = [] then split_from [] cs else rev w # split_from [] cs)
      else split_from (c # w) cs)"

definition split :: "string \<Rightarrow> string list" where
  "split line = split_from [] line"

text \<open>The test of lines 256 and 332.\<close>

definition qualifies :: "string list \<Rightarrow> bool" where
  "qualifies parts = (length parts \<ge> 4 \<and> endswith (parts ! 2) ''pam_python.so'')"

text \<open>The first loop, lines 254-258: the script of the first qualifying line.\<close>

fun find_module_script :: "string list \<Rightarrow> string option" where
  "find_module_script [] = None"
| "find_module_script (line # rest) =
     (let parts = split line in
      if qualifies parts then Some (parts ! 3) else find_module_script rest)"

text \<open>The second loop, lines 330-335: every qualifying line writes \<open>_service_args\<close>.\<close>

fun parse_service_args ::
  "(string \<times> string list) list \<Rightarrow> string list \<Rightarrow> (string \<times> string list) list" where
  "parse_service_args sa [] = sa"
| "parse_service_args sa (line # rest) =
     (let parts = split line in
      if qualifies parts
      then parse_service_args (AList.update (parts ! 0) (drop 3 parts) sa) rest
      else parse_service_args sa rest)"

text \<open>
  What \<open>start\<close> needs of the operating system: the working directory, which paths
  exist, the lines of a file that can be read (\<open>None\<close> when opening or reading it
  raises), and what loading a script yields (the module, or the exception that loading
  raises). The files do not change while \<open>start\<close> runs.
\<close>

record os =
  getcwd :: string
  path_exists :: "string \<Rightarrow> bool"
  read_lines :: "string \<Rightarrow> string list option"
  exec_module :: "string \<Rightarrow> exc + user_module"

definition path_isabs :: "string \<Rightarrow> bool" where
  "path_isabs p = startswith p ''/''"

definition path_join :: "string \<Rightarrow> string \<Rightarrow> string" where
  "path_join a b =
     (if path_isabs b then b
      else if a = [] \<or> endswith a ''/'' then a @ b
      else a @ ''/'' @ b)"

section \<open>The dispatcher\<close>

text \<open>
  \<^verbatim>\<open>start\<close>, lines 242-345; \<open>config_path\<close> is \<open>cfg_path\<close> of lines 245-250. It returns the exception it raises, if any, next to the
  state it leaves behind. The export of the constants into the namespace of \<open>PAM\<close>
  (lines 277-283) and the debug dump (lines 340-345) change nothing that the
  dispatcher reads later, provided no constant is named like a name the dispatcher uses.
\<close>

definition config_path :: "os \<Rightarrow> string \<Rightarrow> string" where
  "config_path sys cfg =
     (if path_isabs cfg \<or> path_exists sys cfg then cfg else path_join (getcwd sys) cfg)"

definition start :: "os \<Rightarrow> string \<Rightarrow> hval \<Rightarrow> hval \<Rightarrow> pam \<Rightarrow> exc option \<times> pam" where
  "start sys pam_module_filename user conv self =
     (let cfg = pam_module_filename;
          cfg_path = config_path sys cfg;
          module_script =
            (case read_lines sys cfg_path of
               Some lines \<Rightarrow> find_module_script lines
             | None \<Rightarrow>
                 (let possible = path_join (getcwd sys) ''test.py'' in
                  if path_exists sys possible then Some possible else None))
      in case module_script of
           None \<Rightarrow> (Some (RuntimeError (''could not find target python module in '' @ cfg_path)), self)
         | Some script \<Rightarrow>
             (case exec_module sys script of
                Inl e \<Rightarrow> (Some e, self)
              | Inr user_mod \<Rightarrow>
                  (let self1 = self\<lparr>user_module := Some user_mod\<rparr> in
                   case PamHandle_type_init (Val (VStr script)) user conv of
                     Inl e \<Rightarrow> (Some e, self1)
                   | Inr h0 \<Rightarrow>
                       (let h1 = populate_constants h0 user_mod;
                            self2 = self1\<lparr>pamh := Some h1\<rparr>
                        in case handle_setattr h1 ''env'' (Env []) of
                             Inl e \<Rightarrow> (Some e, self2)
                           | Inr h2 \<Rightarrow>
                               (let sa = (case read_lines sys cfg_path of
                                            Some lines \<Rightarrow> parse_service_args [] lines
                                          | None \<Rightarrow> [])
                                in (None, self2\<lparr>pamh := Some h2, service_args := Some sa\<rparr>))))))"

text \<open>The name of the service whose arguments an entry point receives, lines 360-368.\<close>

definition service_map :: "(string \<times> string) list" where
  "service_map = [(''pam_sm_authenticate'', ''auth''), (''pam_sm_setcred'', ''auth''),
                  (''pam_sm_acct_mgmt'', ''account''), (''pam_sm_open_session'', ''session''),
                  (''pam_sm_close_session'', ''session''), (''pam_sm_chauthtok'', ''password'')]"

text \<open>
  A value read from the handle by the dispatcher: an attribute that holds something
  other than a plain value is seen as an object of its kind.
\<close>

fun as_pyval :: "hval \<Rightarrow> pyval" where
  "as_pyval (Val v) = v"
| "as_pyval (Callable d) = VObj ''function'' []"
| "as_pyval (Env d) = VObj ''PamEnvMapping'' []"
| "as_pyval (Class c) = VObj ''type'' []"

text \<open>\<^verbatim>\<open>getattr(self._pamh, name, default)\<close>, where \<open>_pamh\<close> may still be \<open>None\<close>.\<close>

definition pamh_getattr :: "handle option \<Rightarrow> string \<Rightarrow> pyval \<Rightarrow> pyval" where
  "pamh_getattr ho name d =
     (case ho of
        None \<Rightarrow> d
      | Some h \<Rightarrow> as_pyval (handle_getattr_default h name (Val d)))"

text \<open>Lines 359-381: the argv that the module function receives.\<close>

definition resolve_argv :: "pam \<Rightarrow> string \<Rightarrow> pyval \<Rightarrow> pyval" where
  "resolve_argv self name argv =
     (if argv = VNone
      then (let argv1 =
                  (case map_of service_map name of
                     Some svc \<Rightarrow>
                       (case service_args self of
                          Some sa \<Rightarrow>
                            (case map_of sa svc of
                               Some args \<Rightarrow> VList (map VStr args)
                             | None \<Rightarrow> VNone)
                        | None \<Rightarrow> VNone)
                   | None \<Rightarrow> VNone)
            in if argv1 = VNone
               then (let mp = (case user_module self of Some um \<Rightarrow> mod_file um | None \<Rightarrow> VNone);
                         mp1 = (if mp = VNone \<and> pamh self \<noteq> None
                                then pamh_getattr (pamh self) ''module_path'' VNone
                                else mp)
                     in if mp1 \<noteq> VNone then VList [mp1] else argv1)
               else argv1)
      else argv)"

text \<open>Lines 386-397: what becomes of the value the module function returned.\<close>

definition translate_result :: "handle option \<Rightarrow> pyval \<Rightarrow> exc + pyval" where
  "translate_result ho res =
     (if isinstance_int res
      then (if int_of res \<noteq> Some 0
            then (let ignore_val = pamh_getattr ho ''PAM_IGNORE'' (VInt 25);
                      perm_denied = pamh_getattr ho ''PAM_PERM_DENIED'' (VInt 6);
                      code = (if int_eq res ignore_val then perm_denied else res)
                  in Inl (error ''pam service returned error'' code))
            else Inr res)
      else Inr res)"

text \<open>Lines 398-404: the three \<^verbatim>\<open>except\<close> clauses, in order.\<close>

definition translate_exception :: "interp \<Rightarrow> exc \<Rightarrow> exc" where
  "translate_exception I e =
     (if is_PamException e then e
      else if is_error e then e
      else if is_Exception e then PamException (VInt 3) [VStr (exc_str I e)]
      else e)"

text \<open>
  Lines 383-404: the outcome of the call as the caller of \<^verbatim>\<open>_call_handler\<close> sees it.
  The \<open>error\<close> raised for a non-zero result is raised inside the \<^verbatim>\<open>try\<close>, so it passes
  the \<^verbatim>\<open>except\<close> clauses too. \<open>h1\<close> is the handle as the module function left it.
\<close>

definition handler_outcome :: "interp \<Rightarrow> handle option \<Rightarrow> outcome \<Rightarrow> exc + pyval" where
  "handler_outcome I h1 out =
     (case out of
        Returns res \<Rightarrow>
          (case translate_result h1 res of
             Inl e \<Rightarrow> Inl (translate_exception I e)
           | Inr v \<Rightarrow> Inr v)
      | Raises e \<Rightarrow> Inl (translate_exception I e))"

text \<open>\<^verbatim>\<open>_call_handler\<close>, lines 347-404.\<close>

definition call_handler :: "interp \<Rightarrow> string \<Rightarrow> pyval \<Rightarrow> pyval \<Rightarrow> pam \<Rightarrow> (exc + pyval) \<times> pam" where
  "call_handler I name flags argv self =
     (case user_module self of
        None \<Rightarrow> (Inl (RuntimeError ''module not started''), self)
      | Some um \<Rightarrow>
          (case mod_attrs um name of
             Some (Function func) \<Rightarrow>
               (let argv1 = resolve_argv self name argv;
                    (out, h1) = func (pamh self) flags argv1;
                    self1 = self\<lparr>pamh := h1, calls := calls self @ [(name, flags, argv1)]\<rparr>
                in (handler_outcome I h1 out, self1))
           | _ \<Rightarrow> (Inl (error ''Symbol not found'' (VInt 2)), self)))"

text \<open>The entry points, lines 406-457.\<close>

definition authenticate :: "interp \<Rightarrow> pyval \<Rightarrow> pyval \<Rightarrow> pam \<Rightarrow> (exc + pyval) \<times> pam" where
  "authenticate I flags argv self = call_handler I ''pam_sm_authenticate'' flags argv self"

definition setcred :: "interp \<Rightarrow> pyval \<Rightarrow> pyval \<Rightarrow> pam \<Rightarrow> (exc + pyval) \<times> pam" where
  "setcred I flags argv self = call_handler I ''pam_sm_setcred'' flags argv self"

definition acct_mgmt :: "interp \<Rightarrow> pyval \<Rightarrow> pyval \<Rightarrow> pam \<Rightarrow> (exc + pyval) \<times> pam" where
  "acct_mgmt I flags argv self = call_handler I ''pam_sm_acct_mgmt'' flags argv self"

definition open_session :: "interp \<Rightarrow> pyval \<Rightarrow> pyval \<Rightarrow> pam \<Rightarrow> (exc + pyval) \<times> pam" where
  "open_session I flags argv self = call_handler I ''pam_sm_open_session'' flags argv self"

definition close_session :: "interp \<Rightarrow> pyval \<Rightarrow> pyval \<Rightarrow> pam \<Rightarrow> (exc + pyval) \<times> pam" where
  "close_session I flags argv self = call_handler I ''pam_sm_close_session'' flags argv self"

text \<open>\<^verbatim>\<open>chauthtok\<close>, lines 442-451; its \<open>flags\<close> argument is not used.\<close>

definition chauthtok :: "interp \<Rightarrow> pyval \<Rightarrow> pyval \<Rightarrow> pam \<Rightarrow> (exc + pyval) \<times> pam" where
  "chauthtok I flags argv self =
     (let prelim = pamh_getattr (pamh self) ''PAM_PRELIM_CHECK'' (VInt 0x4000);
          update = pamh_getattr (pamh self) ''PAM_UPDATE_AUTHTOK'' (VInt 0x2000)
      in case call_handler I ''pam_sm_chauthtok'' prelim argv self of
           (Inl e, self1) \<Rightarrow> (Inl e, self1)
         | (Inr v, self1) \<Rightarrow> call_handler I ''pam_sm_chauthtok'' update argv self1)"

text \<open>The lifecycle entry points by name.\<close>

datatype entry_point = Authenticate | Setcred | AcctMgmt | OpenSession | CloseSession | Chauthtok

fun entry_name :: "entry_point \<Rightarrow> string" where
  "entry_name Authenticate = ''pam_sm_authenticate''"
| "entry_name Setcred = ''pam_sm_setcred''"
| "entry_name AcctMgmt = ''pam_sm_acct_mgmt''"
| "entry_name OpenSession = ''pam_sm_open_session''"
| "entry_name CloseSession = ''pam_sm_close_session''"
| "entry_name Chauthtok = ''pam_sm_chauthtok''"

fun invoke :: "interp \<Rightarrow> entry_point \<Rightarrow> pyval \<Rightarrow> pyval \<Rightarrow> pam \<Rightarrow> (exc + pyval) \<times> pam" where
  "invoke I Authenticate flags argv self = authenticate I flags argv self"
| "invoke I Setcred flags argv self = setcred I flags argv self"
| "invoke I AcctMgmt flags argv self = acct_mgmt I flags argv self"
| "invoke I OpenSession flags argv self = open_session I flags argv self"
| "invoke I CloseSession flags argv self = close_session I flags argv self"
| "invoke I Chauthtok flags argv self = chauthtok I flags argv self"

section \<open>Example inputs\<close>

text \<open>
  The inputs at which the theorems below are tried. \<open>scenario_line\<close> is the
  configuration line of the end-to-end scenario. \<open>returning\<close>, \<open>raising\<close> and \<open>echo_flags\<close> (which
  returns the list of the flags it was given) are module functions that leave the handle
  alone; \<open>example_module\<close> binds every entry-point name
  to one function and was loaded from \<^verbatim>\<open>/opt/mod.py\<close>; \<open>example_os\<close> holds the
  configuration file \<^verbatim>\<open>/etc/pam.d/login\<close> and a module; \<open>started um\<close> is the
  dispatcher after \<open>start\<close> there; \<open>bare_module\<close> defines no entry point and binds
  \<^verbatim>\<open>pam_sm_authenticate\<close> to a number. \<open>example_interp\<close> gives
  the text \<^verbatim>\<open><object>\<close> to every value that is not a string. \<open>fresh_handle\<close> is the
  handle that \<^verbatim>\<open>__init__\<close> builds when it succeeds and \<open>sealed_handle\<close> one after
  \<^verbatim>\<open>_populate_constants\<close>. \<open>payload_only\<close> is a conversation delegate that takes the
  payload alone and answers \<^verbatim>\<open>('yes', 0)\<close> to each prompt; \<open>one_answer\<close> answers one
  string whatever it is asked; \<open>prompt\<close> is a \<open>Message\<close>.
\<close>

definition scenario_line :: string where
  "scenario_line = ''login auth /lib/pam_python.so /opt/mod.py arg1 arg2''"

definition returning :: "pyval \<Rightarrow> entry_fn" where
  "returning v = (\<lambda>h flags argv. (Returns v, h))"


definition echo_flags :: entry_fn where
  "echo_flags = (\<lambda>h flags argv. (Returns (VList [flags]), h))"

definition example_module :: "entry_fn \<Rightarrow> user_module" where
  "example_module f =
     \<lparr>mod_attrs = (\<lambda>n. if startswith n ''pam_sm_'' then Some (Function f) else None),
      mod_file = VStr ''/opt/mod.py'', PAM_CONSTANTS = None\<rparr>"

definition example_os :: "user_module \<Rightarrow> os" where
  "example_os um =
     \<lparr>getcwd = ''/root'',
      path_exists = (\<lambda>p. p = ''/etc/pam.d/login''),
      read_lines = (\<lambda>p. if p = ''/etc/pam.d/login'' then Some [scenario_line] else None),
      exec_module = (\<lambda>p. if p = ''/opt/mod.py'' then Inr um
                          else Inl (Exc (OtherException ''FileNotFoundError'') [VStr p]))\<rparr>"

definition example_interp :: interp where
  "example_interp = \<lparr>str_of = (\<lambda>v. ''<object>''), repr_of = (\<lambda>v. ''<object>'')\<rparr>"

definition started :: "user_module \<Rightarrow> pam" where
  "started um =
     snd (start (example_os um) ''/etc/pam.d/login'' (Val (VStr ''alice'')) (Val VNone) pam_init)"

definition bare_module :: user_module where
  "bare_module =
     \<lparr>mod_attrs = [''pam_sm_authenticate'' \<mapsto> Data (VInt 1)],
      mod_file = VStr ''/opt/mod.py'', PAM_CONSTANTS = None\<rparr>"

definition payload_only :: delegate where
  "payload_only =
     (\<lambda>shape convs.
        case shape of
          PayloadOnly \<Rightarrow>
            Returns (VList (map (\<lambda>m. VTuple [VStr ''yes'', VInt 0])
                              (if isinstance_seq convs then seq_items convs else [convs])))
        | _ \<Rightarrow> Raises (TypeError ''conv() takes 1 positional argument''))"

definition one_answer :: delegate where
  "one_answer = (\<lambda>shape convs. Returns (VStr ''secret''))"

definition prompt :: pyval where
  "prompt = VObj ''Message'' [(''msg'', VStr ''Password: ''), (''msg_style'', VInt 1)]"

definition fresh_handle :: "hval \<Rightarrow> hval \<Rightarrow> hval \<Rightarrow> handle" where
  "fresh_handle module_path user conv =
     [''module'' \<mapsto> Val VNone, ''module_path'' \<mapsto> module_path, ''user'' \<mapsto> user,
      ''conv'' \<mapsto> conv, ''exception'' \<mapsto> Class ''PamException'',
      ''_constants_locked'' \<mapsto> Val (VBool False)]"

definition sealed_handle :: "hval \<Rightarrow> handle" where
  "sealed_handle conv =
     populate_constants (fresh_handle (Val (VStr ''/opt/mod.py'')) (Val (VStr ''alice'')) conv)
       bare_module"

section \<open>Facts about prefixes and the seal\<close>




section \<open>Starting a transaction\<close>

lemma split_scenario:
  "split scenario_line = [''login'', ''auth'', ''/lib/pam_python.so'', ''/opt/mod.py'', ''arg1'', ''arg2'']"
  by (simp add: split_def scenario_line_def is_space_def)

lemma qualifies_scenario: "qualifies (split scenario_line)"
  by (simp add: split_scenario qualifies_def endswith_def)

lemma find_scenario: "find_module_script [scenario_line] = Some ''/opt/mod.py''"
  by (simp add: qualifies_scenario Let_def) (simp add: split_scenario)

lemma parse_scenario:
  "parse_service_args [] [scenario_line] = [(''login'', [''/opt/mod.py'', ''arg1'', ''arg2''])]"
  by (simp add: qualifies_scenario Let_def) (simp add: split_scenario)

lemma not_locked_unset: "h ''_constants_locked'' = None \<Longrightarrow> \<not> constants_locked h"
  by (simp add: constants_locked_def handle_getattr_default_def handle_getattr_def
      handle_getattr_fallback_def item_names_def AttributeError_def)

lemma PamHandle_type_init_str:
  "hval_is_str user \<Longrightarrow>
   PamHandle_type_init module_path user conv = Inr (fresh_handle module_path user conv)"
  by (simp add: PamHandle_type_init_def fresh_handle_def handle_setattr_def startswith_def
      not_locked_unset item_const_def object_setattr_def)

lemma setattr_env_sealed:
  "handle_setattr h ''env'' v = Inr (h(''env'' \<mapsto> v))"
  by (simp add: handle_setattr_def startswith_def item_const_def object_setattr_def)

lemma start_success:
  assumes "read_lines sys (config_path sys cfg) = Some lines"
    and "find_module_script lines = Some script"
    and "exec_module sys script = Inr um"
    and "hval_is_str user"
  shows "start sys cfg user conv self =
           (None, self\<lparr>user_module := Some um,
                       pamh := Some ((populate_constants (fresh_handle (Val (VStr script)) user conv) um)
                                       (''env'' \<mapsto> Env [])),
                       service_args := Some (parse_service_args [] lines)\<rparr>)"
  using assms
  by (simp add: start_def Let_def PamHandle_type_init_str setattr_env_sealed)

lemma start_loads_module:
  "start sys cfg user conv self = (None, self') \<Longrightarrow> user_module self' \<noteq> None"
  by (auto simp: start_def Let_def split: option.splits sum.splits)

lemma example_os_config:
  "read_lines (example_os um) (config_path (example_os um) ''/etc/pam.d/login'') = Some [scenario_line]"
  by (simp add: example_os_def config_path_def path_isabs_def startswith_def)

lemma example_os_load: "exec_module (example_os um) ''/opt/mod.py'' = Inr um"
  by (simp add: example_os_def)

lemma alice_is_str: "hval_is_str (Val (VStr ''alice''))"
  by simp

lemma start_example:
  "start (example_os um) ''/etc/pam.d/login'' (Val (VStr ''alice'')) (Val VNone) pam_init
     = (None, pam_init\<lparr>user_module := Some um,
            pamh := Some ((populate_constants
                     (fresh_handle (Val (VStr ''/opt/mod.py'')) (Val (VStr ''alice'')) (Val VNone))
                     um) (''env'' \<mapsto> Env [])),
            service_args := Some [(''login'', [''/opt/mod.py'', ''arg1'', ''arg2''])]\<rparr>)"
  using start_success [OF example_os_config find_scenario example_os_load alice_is_str,
      where conv = "Val VNone" and self = pam_init and um = um]
  by (simp only: parse_scenario)

lemma started_fields:
  "user_module (started um) = Some um"
  "service_args (started um) = Some [(''login'', [''/opt/mod.py'', ''arg1'', ''arg2''])]"
  "calls (started um) = []"
  "pamh (started um) = Some ((populate_constants
                     (fresh_handle (Val (VStr ''/opt/mod.py'')) (Val (VStr ''alice'')) (Val VNone))
                     um) (''env'' \<mapsto> Env []))"
  by (simp_all add: started_def start_example) (simp add: pam_init_def)

lemma example_module_entry:
  "mod_attrs (example_module f) (entry_name ep) = Some (Function f)"
  by (cases ep) (simp_all add: example_module_def startswith_def)

lemma example_module_file: "mod_file (example_module f) = VStr ''/opt/mod.py''"
  by (simp add: example_module_def)

lemma started_getattr:
  "pamh_getattr (pamh (started (example_module f))) ''PAM_IGNORE'' d = d"
  "pamh_getattr (pamh (started (example_module f))) ''PAM_PERM_DENIED'' d = d"
  "pamh_getattr (pamh (started (example_module f))) ''PAM_PRELIM_CHECK'' d = d"
  "pamh_getattr (pamh (started (example_module f))) ''PAM_UPDATE_AUTHTOK'' d = d"
  by (simp_all add: started_fields pamh_getattr_def handle_getattr_default_def handle_getattr_def
      populate_constants_def example_module_def object_setattr_def fresh_handle_def
      handle_getattr_fallback_def item_names_def AttributeError_def)

lemma resolve_started:
  "resolve_argv (started (example_module f)) (entry_name ep) VNone = VList [VStr ''/opt/mod.py'']"
  by (cases ep) (simp_all add: resolve_argv_def started_fields service_map_def example_module_file)

section \<open>Calls into the module\<close>

lemma call_handler_found:
  assumes "user_module self = Some um" and "mod_attrs um name = Some (Function func)"
  shows "call_handler I name flags argv self =
           (handler_outcome I (snd (func (pamh self) flags (resolve_argv self name argv)))
              (fst (func (pamh self) flags (resolve_argv self name argv))),
            self\<lparr>pamh := snd (func (pamh self) flags (resolve_argv self name argv)),
                 calls := calls self @ [(name, flags, resolve_argv self name argv)]\<rparr>)"
  using assms by (simp add: call_handler_def Let_def split: prod.splits)

lemma call_handler_calls:
  assumes "user_module self = Some um" and "mod_attrs um name = Some (Function func)"
  shows "calls (snd (call_handler I name flags argv self))
           = calls self @ [(name, flags, resolve_argv self name argv)]"
  by (simp add: call_handler_found [OF assms])

lemma call_handler_not_callable:
  assumes "user_module self = Some um"
    and "mod_attrs um name = None \<or> (\<exists>v. mod_attrs um name = Some (Data v))"
  shows "call_handler I name flags argv self = (Inl (error ''Symbol not found'' (VInt 2)), self)"
  using assms by (auto simp: call_handler_def)


section \<open>Message and Response construction\<close>

text \<open>
  Claim C10. Constructing a \<open>Response\<close> through the class that the handle hands out never
  fails, whatever the two arguments are: both are stored as given. Constructing a
  \<open>Message\<close> raises a \<open>TypeError\<close> exactly when the style is not an integer or the text
  is not a string.
\<close>

theorem response_unchecked_message_checked:
  "class_call ''Response'' [a, b] = Inr (VObj ''Response'' [(''resp'', a), (''resp_retcode'', b)])
   \<and> handle_getattr_fallback ''Response'' = Inr (Class ''Response'')
   \<and> handle_getattr_fallback ''Message'' = Inr (Class ''Message'')
   \<and> ((\<exists>m. class_call ''Message'' [style, msg] = Inl (TypeError m))
        \<longleftrightarrow> (\<not> isinstance_int style \<or> \<not> isinstance_str msg))"
  by (auto simp: class_call_def Response_init_def handle_getattr_fallback_def item_names_def
      Message_init_def TypeError_def)

theorem response_unchecked_message_checked_witness:
  "class_call ''Response'' [VList [], VNone]
     = Inr (VObj ''Response'' [(''resp'', VList []), (''resp_retcode'', VNone)])
   \<and> \<not> isinstance_int (VStr ''1'')
   \<and> (\<exists>m. class_call ''Message'' [VStr ''1'', VStr ''login:''] = Inl (TypeError m))"
  using response_unchecked_message_checked [of "VList []" VNone "VStr ''1''" "VStr ''login:''"]
  by (simp add: isinstance_int_def)

section \<open>Attribute writes on the handle\<close>



section \<open>The environment mapping round trip\<close>

text \<open>
  Claim C7. For every non-empty key without \<open>=\<close> and every string value, on every
  state of the mapping: setting the key succeeds, getting it then returns exactly that
  value, deleting it then succeeds, and getting it after that raises \<open>KeyError\<close> with
  the key.
\<close>

theorem env_set_get_delete:
  assumes "k \<noteq> []" and "CHR ''='' \<notin> set k"
  shows "\<exists>d1 d2. env_setitem d (VStr k) (VStr v) = Inr d1
           \<and> env_getitem d1 (VStr k) = Inr (VStr v)
           \<and> env_delitem d1 (VStr k) = Inr d2
           \<and> env_getitem d2 (VStr k) = Inl (KeyError (VStr k))"
  using assms
  by (simp add: env_setitem_def env_getitem_def env_delitem_def update_conv' delete_conv')

theorem env_set_get_delete_witness:
  "''HOME'' \<noteq> [] \<and> CHR ''='' \<notin> set ''HOME''
   \<and> (\<exists>d1 d2. env_setitem [(''HOME'', ''/'')] (VStr ''HOME'') (VStr ''/root'') = Inr d1
           \<and> env_getitem d1 (VStr ''HOME'') = Inr (VStr ''/root'')
           \<and> env_delitem d1 (VStr ''HOME'') = Inr d2
           \<and> env_getitem d2 (VStr ''HOME'') = Inl (KeyError (VStr ''HOME'')))"
  using env_set_get_delete [of "''HOME''" "[(''HOME'', ''/'')]" "''/root''"]
  by simp

section \<open>Missing entry points\<close>

text \<open>
  Claim C8. Once a module is loaded (which is what a successful \<open>start\<close> leaves,
  lemma \<open>start_loads_module\<close>), every lifecycle entry point whose function is absent
  from the module, or bound to something that is not callable, raises \<open>PAM.error\<close> with
  the arguments \<^verbatim>\<open>('Symbol not found', 2)\<close> and leaves the dispatcher as it was.
\<close>

theorem missing_symbol_not_found:
  assumes "user_module self = Some um"
    and "mod_attrs um (entry_name ep) = None \<or> (\<exists>v. mod_attrs um (entry_name ep) = Some (Data v))"
  shows "invoke I ep flags argv self
           = (Inl (Exc PamErrorC [VStr ''Symbol not found'', VInt 2]), self)"
proof -
  have "call_handler I (entry_name ep) fl argv self = (Inl (error ''Symbol not found'' (VInt 2)), self)" for fl
    using assms by (rule call_handler_not_callable)
  then show ?thesis
    by (cases ep) (simp_all add: authenticate_def setcred_def acct_mgmt_def open_session_def
        close_session_def chauthtok_def error_def Let_def)
qed

theorem missing_symbol_not_found_witness:
  "user_module (started bare_module) = Some bare_module
   \<and> mod_attrs bare_module (entry_name Chauthtok) = None
   \<and> mod_attrs bare_module (entry_name Authenticate) = Some (Data (VInt 1))
   \<and> invoke example_interp Chauthtok (VInt 0) VNone (started bare_module)
        = (Inl (Exc PamErrorC [VStr ''Symbol not found'', VInt 2]), started bare_module)
   \<and> invoke example_interp Authenticate (VInt 0) VNone (started bare_module)
        = (Inl (Exc PamErrorC [VStr ''Symbol not found'', VInt 2]), started bare_module)"
proof -
  have u: "user_module (started bare_module) = Some bare_module"
    by (rule started_fields)
  have a: "mod_attrs bare_module (entry_name Chauthtok) = None"
    and b: "mod_attrs bare_module (entry_name Authenticate) = Some (Data (VInt 1))"
    by (simp_all add: bare_module_def)
  show ?thesis
    using missing_symbol_not_found [OF u, of Chauthtok example_interp "VInt 0" VNone]
      missing_symbol_not_found [OF u, of Authenticate example_interp "VInt 0" VNone] u a b
    by simp
qed

section \<open>The end-to-end configuration scenario\<close>

text \<open>
  Claim C2, as the code has it. With a configuration file that consists of the line
  \<^verbatim>\<open>login auth /lib/pam_python.so /opt/mod.py arg1 arg2\<close>, a string user and a module
  loaded from \<^verbatim>\<open>/opt/mod.py\<close> that defines \<^verbatim>\<open>pam_sm_authenticate\<close> and has its
  \<open>__file__\<close>: \<open>start\<close> succeeds, the script is \<^verbatim>\<open>/opt/mod.py\<close>, the service-argument
  table is keyed by the first field and its vector begins with the script,
  \<^verbatim>\<open>{login: [/opt/mod.py, arg1, arg2]}\<close>, and \<open>authenticate\<close> with flags 0 and no
  argv, finding no entry for \<open>auth\<close>, calls \<^verbatim>\<open>pam_sm_authenticate(handle, 0, [__file__])\<close>.
\<close>

theorem scenario_login_line:
  assumes "read_lines sys (config_path sys cfg) = Some [scenario_line]"
    and "exec_module sys ''/opt/mod.py'' = Inr um"
    and "hval_is_str user"
    and "mod_attrs um ''pam_sm_authenticate'' = Some (Function func)"
    and "mod_file um \<noteq> VNone"
  shows "find_module_script [scenario_line] = Some ''/opt/mod.py''
     \<and> fst (start sys cfg user conv self) = None
     \<and> user_module (snd (start sys cfg user conv self)) = Some um
     \<and> service_args (snd (start sys cfg user conv self))
         = Some [(''login'', [''/opt/mod.py'', ''arg1'', ''arg2''])]
     \<and> calls (snd (authenticate I (VInt 0) VNone (snd (start sys cfg user conv self))))
         = calls self @ [(''pam_sm_authenticate'', VInt 0, VList [mod_file um])]"
proof -
  define self1 where "self1 = snd (start sys cfg user conv self)"
  have st: "start sys cfg user conv self =
      (None, self\<lparr>user_module := Some um,
                  pamh := Some ((populate_constants (fresh_handle (Val (VStr ''/opt/mod.py'')) user conv) um)
                                  (''env'' \<mapsto> Env [])),
                  service_args := Some [(''login'', [''/opt/mod.py'', ''arg1'', ''arg2''])]\<rparr>)"
    using start_success [OF assms(1) find_scenario assms(2) assms(3), of conv self]
    by (simp only: parse_scenario)
  have ok: "fst (start sys cfg user conv self) = None"
    by (simp add: st)
  have um: "user_module self1 = Some um"
    and sa: "service_args self1 = Some [(''login'', [''/opt/mod.py'', ''arg1'', ''arg2''])]"
    and cs: "calls self1 = calls self"
    by (simp_all add: self1_def st)
  have rs: "resolve_argv self1 ''pam_sm_authenticate'' VNone = VList [mod_file um]"
    using assms(5) by (simp add: resolve_argv_def service_map_def Let_def um sa)
  have "calls (snd (authenticate I (VInt 0) VNone self1))
          = calls self @ [(''pam_sm_authenticate'', VInt 0, VList [mod_file um])]"
    unfolding authenticate_def call_handler_calls [OF um assms(4)] rs cs ..
  then show ?thesis
    using ok um sa find_scenario unfolding self1_def by blast
qed

text \<open>The scenario at the example system, where \<open>__file__\<close> is \<^verbatim>\<open>/opt/mod.py\<close>.\<close>

theorem scenario_login_line_witness:
  "read_lines (example_os (example_module (returning (VInt 0))))
      (config_path (example_os (example_module (returning (VInt 0)))) ''/etc/pam.d/login'')
     = Some [scenario_line]
   \<and> exec_module (example_os (example_module (returning (VInt 0)))) ''/opt/mod.py''
       = Inr (example_module (returning (VInt 0)))
   \<and> hval_is_str (Val (VStr ''alice''))
   \<and> mod_attrs (example_module (returning (VInt 0))) ''pam_sm_authenticate''
       = Some (Function (returning (VInt 0)))
   \<and> mod_file (example_module (returning (VInt 0))) \<noteq> VNone
   \<and> service_args (started (example_module (returning (VInt 0))))
       = Some [(''login'', [''/opt/mod.py'', ''arg1'', ''arg2''])]
   \<and> calls (snd (authenticate example_interp (VInt 0) VNone
                   (started (example_module (returning (VInt 0))))))
       = [(''pam_sm_authenticate'', VInt 0, VList [VStr ''/opt/mod.py''])]"
proof -
  have f: "mod_attrs (example_module (returning (VInt 0))) ''pam_sm_authenticate''
             = Some (Function (returning (VInt 0)))"
    using example_module_entry [of "returning (VInt 0)" Authenticate] by simp
  have m: "mod_file (example_module (returning (VInt 0))) \<noteq> VNone"
    by (simp add: example_module_file)
  show ?thesis
    using scenario_login_line [OF example_os_config example_os_load alice_is_str f m,
        where conv = "Val VNone" and self = pam_init and I = example_interp]
      example_os_config example_os_load f m
    by (simp add: started_def example_module_file) (simp add: pam_init_def)
qed

text \<open>
  Claim C2 as stated fails at the example system: the table is not
  \<^verbatim>\<open>{auth: [arg1, arg2]}\<close> and the module function does not receive \<^verbatim>\<open>[arg1, arg2]\<close>.
\<close>

theorem scenario_as_stated_counterexample:
  "service_args (started (example_module (returning (VInt 0))))
       = Some [(''login'', [''/opt/mod.py'', ''arg1'', ''arg2''])]
   \<and> service_args (started (example_module (returning (VInt 0))))
       \<noteq> Some [(''auth'', [''arg1'', ''arg2''])]
   \<and> calls (snd (authenticate example_interp (VInt 0) VNone
                   (started (example_module (returning (VInt 0))))))
       = [(''pam_sm_authenticate'', VInt 0, VList [VStr ''/opt/mod.py''])]
   \<and> calls (snd (authenticate example_interp (VInt 0) VNone
                   (started (example_module (returning (VInt 0))))))
       \<noteq> [(''pam_sm_authenticate'', VInt 0, VList [VStr ''arg1'', VStr ''arg2''])]"
proof -
  have c: "calls (snd (authenticate example_interp (VInt 0) VNone
                   (started (example_module (returning (VInt 0))))))
       = [(''pam_sm_authenticate'', VInt 0, VList [VStr ''/opt/mod.py''])]"
    using call_handler_calls [OF started_fields(1) [of "example_module (returning (VInt 0))"]
          example_module_entry [of "returning (VInt 0)" Authenticate],
        where I = example_interp and flags = "VInt 0" and argv = VNone]
      resolve_started [of "returning (VInt 0)" Authenticate]
    by (simp add: authenticate_def started_fields)
  show ?thesis
    unfolding c by (simp add: started_fields)
qed

section \<open>Outcomes of a call\<close>

lemma handler_outcome_int:
  "handler_outcome I h (Returns (VInt r)) =
     (if r = 0 then Inr (VInt 0)
      else Inl (Exc PamErrorC [VStr ''pam service returned error'',
                  if int_eq (VInt r) (pamh_getattr h ''PAM_IGNORE'' (VInt 25))
                  then pamh_getattr h ''PAM_PERM_DENIED'' (VInt 6) else VInt r]))"
  by (simp add: handler_outcome_def translate_result_def isinstance_int_def
      translate_exception_def error_def Let_def)


lemma handler_outcome_passes:
  "(\<exists>v. handler_outcome I h out = Inr v)
     \<longleftrightarrow> (\<exists>v. out = Returns v \<and> (int_of v = None \<or> int_of v = Some 0))"
  by (cases out)
     (auto simp: handler_outcome_def translate_result_def isinstance_int_def Let_def
       split: sum.splits)


lemma chauthtok_unfold:
  "chauthtok I flags argv self =
     (case fst (call_handler I ''pam_sm_chauthtok''
                 (pamh_getattr (pamh self) ''PAM_PRELIM_CHECK'' (VInt 0x4000)) argv self) of
        Inl e \<Rightarrow> (Inl e, snd (call_handler I ''pam_sm_chauthtok''
                 (pamh_getattr (pamh self) ''PAM_PRELIM_CHECK'' (VInt 0x4000)) argv self))
      | Inr v \<Rightarrow> call_handler I ''pam_sm_chauthtok''
                 (pamh_getattr (pamh self) ''PAM_UPDATE_AUTHTOK'' (VInt 0x2000)) argv
                 (snd (call_handler I ''pam_sm_chauthtok''
                 (pamh_getattr (pamh self) ''PAM_PRELIM_CHECK'' (VInt 0x4000)) argv self)))"
  by (simp add: chauthtok_def Let_def split: prod.splits sum.splits)




section \<open>Translation of result codes\<close>



section \<open>Exceptions of the module\<close>





section \<open>The two phases of chauthtok\<close>

lemma resolve_argv_same:
  assumes "user_module s2 = user_module s1" and "service_args s2 = service_args s1"
    and "user_module s1 = Some um"
    and "argv \<noteq> VNone \<or> mod_file um \<noteq> VNone
         \<or> (\<exists>sa args. service_args s1 = Some sa \<and> map_of sa ''password'' = Some args)"
  shows "resolve_argv s2 ''pam_sm_chauthtok'' argv = resolve_argv s1 ''pam_sm_chauthtok'' argv"
  using assms by (auto simp: resolve_argv_def service_map_def Let_def)

lemma returning_apply: "returning v h flags argv = (Returns v, h)"
  by (simp add: returning_def)

lemma echo_flags_apply: "echo_flags h flags argv = (Returns (VList [flags]), h)"
  by (simp add: echo_flags_def)

lemma resolve_started_calls:
  "resolve_argv (started (example_module f)\<lparr>calls := cs\<rparr>) ''pam_sm_chauthtok'' VNone
     = VList [VStr ''/opt/mod.py'']"
  using resolve_started [of f Chauthtok]
    resolve_argv_same [of "started (example_module f)\<lparr>calls := cs\<rparr>" "started (example_module f)"
      "example_module f" VNone]
  by (simp add: started_fields example_module_file)

lemma resolve_started_chauthtok:
  "resolve_argv (started (example_module f)) ''pam_sm_chauthtok'' VNone = VList [VStr ''/opt/mod.py'']"
  using resolve_started [of f Chauthtok] by simp

lemma example_module_chauthtok:
  "mod_attrs (example_module f) ''pam_sm_chauthtok'' = Some (Function f)"
  using example_module_entry [of f Chauthtok] by simp

text \<open>
  Claim C1, as the code has it. For a loaded module with a callable
  \<^verbatim>\<open>pam_sm_chauthtok\<close>, \<open>chauthtok\<close> first calls it with the preliminary-check flag
  (\<open>PAM_PRELIM_CHECK\<close> of the handle, else 0x4000). When that call raises or returns a
  non-zero integer, its translated error is what \<open>chauthtok\<close> raises and there is no second
  call: the log has one new entry. Otherwise the returned value is discarded and the
  function is called a second time, on the handle as the first call left it, with the
  update flag (\<open>PAM_UPDATE_AUTHTOK\<close>, else 0x2000); \<open>chauthtok\<close> then gives the outcome of
  that second call alone, and the log has exactly the two entries in this order. Each
  call gets the argv resolved when it is made; the two are the same whenever an argv was
  passed, the module has \<open>__file__\<close>, or the \<open>password\<close> service has configured
  arguments. The first phase passes exactly when it returns a value that is not a
  non-zero integer.
\<close>

theorem chauthtok_two_phase:
  assumes "user_module self = Some um"
    and "mod_attrs um ''pam_sm_chauthtok'' = Some (Function func)"
  shows "(let n = ''pam_sm_chauthtok'';
              prelim = pamh_getattr (pamh self) ''PAM_PRELIM_CHECK'' (VInt 0x4000);
              update = pamh_getattr (pamh self) ''PAM_UPDATE_AUTHTOK'' (VInt 0x2000);
              a1 = resolve_argv self n argv;
              c1 = func (pamh self) prelim a1;
              self1 = self\<lparr>pamh := snd c1, calls := calls self @ [(n, prelim, a1)]\<rparr>;
              a2 = resolve_argv self1 n argv;
              c2 = func (snd c1) update a2;
              self2 = self\<lparr>pamh := snd c2, calls := calls self @ [(n, prelim, a1), (n, update, a2)]\<rparr>
          in (case handler_outcome I (snd c1) (fst c1) of
                Inl e \<Rightarrow> chauthtok I flags argv self = (Inl e, self1)
              | Inr v \<Rightarrow> chauthtok I flags argv self = (handler_outcome I (snd c2) (fst c2), self2))
           \<and> ((\<exists>v. handler_outcome I (snd c1) (fst c1) = Inr v)
                 \<longleftrightarrow> (\<exists>v. fst c1 = Returns v \<and> (int_of v = None \<or> int_of v = Some 0)))
           \<and> (argv \<noteq> VNone \<or> mod_file um \<noteq> VNone
                \<or> (\<exists>sa args. service_args self = Some sa \<and> map_of sa ''password'' = Some args)
               \<longrightarrow> a2 = a1))"
proof -
  let ?n = "''pam_sm_chauthtok''"
  let ?prelim = "pamh_getattr (pamh self) ''PAM_PRELIM_CHECK'' (VInt 0x4000)"
  let ?update = "pamh_getattr (pamh self) ''PAM_UPDATE_AUTHTOK'' (VInt 0x2000)"
  let ?a1 = "resolve_argv self ?n argv"
  let ?c1 = "func (pamh self) ?prelim ?a1"
  let ?self1 = "self\<lparr>pamh := snd ?c1, calls := calls self @ [(?n, ?prelim, ?a1)]\<rparr>"
  let ?a2 = "resolve_argv ?self1 ?n argv"
  let ?c2 = "func (snd ?c1) ?update ?a2"
  have first: "call_handler I ?n ?prelim argv self = (handler_outcome I (snd ?c1) (fst ?c1), ?self1)"
    by (rule call_handler_found [OF assms])
  have um1: "user_module ?self1 = Some um"
    using assms(1) by simp
  have second: "call_handler I ?n ?update argv ?self1 =
      (handler_outcome I (snd ?c2) (fst ?c2),
       self\<lparr>pamh := snd ?c2, calls := calls self @ [(?n, ?prelim, ?a1), (?n, ?update, ?a2)]\<rparr>)"
    using call_handler_found [OF um1 assms(2), of I ?update argv] by simp
  have result: "case handler_outcome I (snd ?c1) (fst ?c1) of
                Inl e \<Rightarrow> chauthtok I flags argv self = (Inl e, ?self1)
              | Inr v \<Rightarrow> chauthtok I flags argv self = (handler_outcome I (snd ?c2) (fst ?c2),
                   self\<lparr>pamh := snd ?c2, calls := calls self @ [(?n, ?prelim, ?a1), (?n, ?update, ?a2)]\<rparr>)"
    by (simp add: chauthtok_unfold first second split: sum.splits)
  have same: "argv \<noteq> VNone \<or> mod_file um \<noteq> VNone
                \<or> (\<exists>sa args. service_args self = Some sa \<and> map_of sa ''password'' = Some args)
               \<longrightarrow> ?a2 = ?a1"
    using resolve_argv_same [of ?self1 self um argv] assms(1) by simp
  show ?thesis
    unfolding Let_def using result same handler_outcome_passes [of I "snd ?c1" "fst ?c1"] by blast
qed

text \<open>A module that returns the list of its flags: the result is that of the update phase.\<close>

theorem chauthtok_two_phase_witness:
  "user_module (started (example_module echo_flags)) = Some (example_module echo_flags)
   \<and> mod_attrs (example_module echo_flags) ''pam_sm_chauthtok'' = Some (Function echo_flags)
   \<and> fst (chauthtok example_interp (VInt 0) VNone (started (example_module echo_flags)))
       = Inr (VList [VInt 0x2000])
   \<and> calls (snd (chauthtok example_interp (VInt 0) VNone (started (example_module echo_flags))))
       = [(''pam_sm_chauthtok'', VInt 0x4000, VList [VStr ''/opt/mod.py'']),
          (''pam_sm_chauthtok'', VInt 0x2000, VList [VStr ''/opt/mod.py''])]"
proof -
  let ?S = "started (example_module echo_flags)"
  have u: "user_module ?S = Some (example_module echo_flags)"
    by (rule started_fields)
  have f: "mod_attrs (example_module echo_flags) ''pam_sm_chauthtok'' = Some (Function echo_flags)"
    by (rule example_module_chauthtok)
  show ?thesis
    using chauthtok_two_phase [OF u f, where I = example_interp and flags = "VInt 0" and argv = VNone] u f
    by (simp add: Let_def started_getattr resolve_started_chauthtok echo_flags_apply
        resolve_started_calls handler_outcome_def translate_result_def isinstance_int_def
        started_fields(3))
qed

text \<open>
  Claim C1 as stated fails for a module that returns 7: there is one call, not two,
  and \<open>chauthtok\<close> raises the error of the first phase.
\<close>

theorem chauthtok_single_call_counterexample:
  "fst (chauthtok example_interp (VInt 0) VNone (started (example_module (returning (VInt 7)))))
     = Inl (error ''pam service returned error'' (VInt 7))
   \<and> calls (snd (chauthtok example_interp (VInt 0) VNone (started (example_module (returning (VInt 7))))))
     = [(''pam_sm_chauthtok'', VInt 0x4000, VList [VStr ''/opt/mod.py''])]"
proof -
  let ?S = "started (example_module (returning (VInt 7)))"
  have u: "user_module ?S = Some (example_module (returning (VInt 7)))"
    by (rule started_fields)
  have f: "mod_attrs (example_module (returning (VInt 7))) ''pam_sm_chauthtok''
             = Some (Function (returning (VInt 7)))"
    by (rule example_module_chauthtok)
  have first: "call_handler example_interp ''pam_sm_chauthtok'' (VInt 0x4000) VNone ?S
      = (Inl (error ''pam service returned error'' (VInt 7)),
         ?S\<lparr>calls := [(''pam_sm_chauthtok'', VInt 0x4000, VList [VStr ''/opt/mod.py''])]\<rparr>)"
    by (simp add: call_handler_found [OF u f] returning_apply handler_outcome_int started_getattr
        int_eq_def error_def resolve_started_chauthtok started_fields(3))
  show ?thesis
    by (simp add: chauthtok_unfold started_getattr first)
qed

section \<open>Population and sealing\<close>








section \<open>Replies of the conversation\<close>

lemma build_responses_map: "build_responses I acc ms = acc @ map (to_Resp I) ms"
  by (induction ms arbitrary: acc) simp_all

lemma to_Resp_is_Resp: "\<exists>a b. to_Resp I m = Resp a b"
  unfolding to_Resp_def by (auto split: option.splits list.splits)

lemma Resp_not_seq: "\<not> isinstance_seq (Resp a b)"
  by (simp add: Resp_def)

lemma sealed_handle_conv: "handle_getattr (sealed_handle c) ''conv'' = Inr c"
  by (simp add: handle_getattr_def sealed_handle_def populate_constants_def bare_module_def
      object_setattr_def fresh_handle_def)

lemma probe_payload_only:
  "probe_conv (Callable payload_only) (VList [prompt, prompt])
     = Returns (VList [VTuple [VStr ''yes'', VInt 0], VTuple [VStr ''yes'', VInt 0]])"
  by (simp add: probe_conv_def payload_only_def TypeError_def)

lemma probe_payload_only_single:
  "probe_conv (Callable payload_only) prompt = Returns (VList [VTuple [VStr ''yes'', VInt 0]])"
  by (simp add: probe_conv_def payload_only_def TypeError_def prompt_def)

text \<open>
  Claim C6, as the code has it. Whenever the delegate returns, its replies are the
  elements of the returned sequence, or the returned value alone when that is not a
  sequence. If the prompt payload is not a sequence, \<open>conversation\<close> returns the single
  \<open>Resp\<close> object made of the first reply, never a sequence, or \<open>None\<close> when there is no
  reply. If the payload is a sequence, \<open>conversation\<close> returns a tuple with exactly one
  \<open>Resp\<close> per reply of the delegate, in the delegate's order; its length is the number of
  replies, whatever the length of the payload.
\<close>

theorem conversation_cardinality:
  assumes "handle_getattr h ''conv'' = Inr c"
    and "probe_conv c convs = Returns res"
  shows "(let replies = (if isinstance_seq res then seq_items res else [res]) in
      (\<not> isinstance_seq convs \<longrightarrow>
         conversation I h convs = Inr (case replies of [] \<Rightarrow> VNone | m # ms \<Rightarrow> to_Resp I m))
    \<and> (isinstance_seq convs \<longrightarrow>
         (\<exists>rs. conversation I h convs = Inr (VTuple rs)
               \<and> length rs = length replies
               \<and> (\<forall>i < length replies. rs ! i = to_Resp I (replies ! i))))
    \<and> (\<forall>m. \<exists>a b. to_Resp I m = Resp a b \<and> \<not> isinstance_seq (Resp a b)))"
proof -
  let ?replies = "if isinstance_seq res then seq_items res else [res]"
  have single: "\<not> isinstance_seq convs \<longrightarrow>
         conversation I h convs = Inr (case ?replies of [] \<Rightarrow> VNone | m # ms \<Rightarrow> to_Resp I m)"
    using assms
    by (simp add: conversation_def Let_def build_responses_map split: list.splits)
  have many: "isinstance_seq convs \<longrightarrow>
         conversation I h convs = Inr (VTuple (map (to_Resp I) ?replies))"
    using assms by (simp add: conversation_def Let_def build_responses_map)
  have "isinstance_seq convs \<longrightarrow>
         (\<exists>rs. conversation I h convs = Inr (VTuple rs)
               \<and> length rs = length ?replies
               \<and> (\<forall>i < length ?replies. rs ! i = to_Resp I (?replies ! i)))"
  proof
    assume "isinstance_seq convs"
    with many have "conversation I h convs = Inr (VTuple (map (to_Resp I) ?replies))"
      by blast
    then show "\<exists>rs. conversation I h convs = Inr (VTuple rs)
               \<and> length rs = length ?replies
               \<and> (\<forall>i < length ?replies. rs ! i = to_Resp I (?replies ! i))"
      by (intro exI [of _ "map (to_Resp I) ?replies"]) simp
  qed
  moreover have "\<forall>m. \<exists>a b. to_Resp I m = Resp a b \<and> \<not> isinstance_seq (Resp a b)"
    using to_Resp_is_Resp Resp_not_seq by blast
  ultimately show ?thesis
    unfolding Let_def using single by blast
qed

text \<open>Two prompts answered one by one, and a single prompt.\<close>

theorem conversation_cardinality_witness:
  "handle_getattr (sealed_handle (Callable payload_only)) ''conv'' = Inr (Callable payload_only)
   \<and> probe_conv (Callable payload_only) (VList [prompt, prompt])
       = Returns (VList [VTuple [VStr ''yes'', VInt 0], VTuple [VStr ''yes'', VInt 0]])
   \<and> isinstance_seq (VList [prompt, prompt])
   \<and> (\<exists>rs. conversation example_interp (sealed_handle (Callable payload_only)) (VList [prompt, prompt])
              = Inr (VTuple rs)
            \<and> length rs = 2
            \<and> rs ! 0 = Resp (VStr ''yes'') (VInt 0) \<and> rs ! 1 = Resp (VStr ''yes'') (VInt 0))
   \<and> \<not> isinstance_seq prompt
   \<and> conversation example_interp (sealed_handle (Callable payload_only)) prompt
       = Inr (Resp (VStr ''yes'') (VInt 0))"
proof -
  have r: "to_Resp example_interp (VTuple [VStr ''yes'', VInt 0]) = Resp (VStr ''yes'') (VInt 0)"
    by (simp add: to_Resp_def)
  have s: "isinstance_seq (VList [prompt, prompt])" "\<not> isinstance_seq prompt"
    by (simp_all add: prompt_def)
  from conversation_cardinality [OF sealed_handle_conv probe_payload_only, of example_interp] s(1)
  obtain rs where rs:
    "conversation example_interp (sealed_handle (Callable payload_only)) (VList [prompt, prompt])
       = Inr (VTuple rs)"
    "length rs = 2"
    "\<forall>i<2. rs ! i = to_Resp example_interp
              ([VTuple [VStr ''yes'', VInt 0], VTuple [VStr ''yes'', VInt 0]] ! i)"
    by (auto simp: Let_def)
  from rs(3) have "rs ! 0 = Resp (VStr ''yes'') (VInt 0)" and "rs ! 1 = Resp (VStr ''yes'') (VInt 0)"
    using r by (simp_all add: nth_Cons')
  moreover have "conversation example_interp (sealed_handle (Callable payload_only)) prompt
       = Inr (Resp (VStr ''yes'') (VInt 0))"
    using conversation_cardinality [OF sealed_handle_conv probe_payload_only_single, of example_interp]
      s(2) by (simp add: r)
  ultimately show ?thesis
    using rs(1,2) s sealed_handle_conv [of "Callable payload_only"] probe_payload_only by blast
qed

text \<open>
  Claim C6 as stated fails for a delegate that answers one string to a payload of two
  prompts: the result has one response, not two.
\<close>

theorem conversation_length_counterexample:
  "conversation example_interp (sealed_handle (Callable one_answer)) (VList [prompt, prompt])
     = Inr (VTuple [Resp (VStr ''secret'') (VInt 0)])
   \<and> length [Resp (VStr ''secret'') (VInt 0)] \<noteq> length [prompt, prompt]"
  by (simp add: conversation_def sealed_handle_conv probe_conv_def one_answer_def to_Resp_def
      py_str_def Let_def)

end
